theory Spec2Isabelle
  imports Main "HOL-Library.Sublist"
begin

section \<open>Values shared by the routes of \<^verbatim>\<open>src/routes/api.js\<close>\<close>

text \<open>
  A JavaScript string is modelled as a \<^typ>\<open>string\<close>; the only operations the routes
  apply to strings are strict equality and \<^verbatim>\<open>String.prototype.includes\<close>. A character
  outside ASCII is written as its UTF-8 bytes.

  Every handler body runs inside \<^verbatim>\<open>try { ... } catch (err) { next(err) }\<close>. A thrown
  exception is the left summand of the result; the right summand is the value handed to
  \<^verbatim>\<open>res.json\<close>. The only exception the modelled code can raise is the
  \<^verbatim>\<open>TypeError\<close> of reading a property of \<^verbatim>\<open>undefined\<close>; it carries the name of that
  property.
\<close>

datatype js_error = TypeError_undefined string

datatype json =
    JBool bool
  | JString string
  | JArray "json list"
  | JObject "(string \<times> json) list"

text \<open>\<^verbatim>\<open>xs[i]\<close> for an integer \<^verbatim>\<open>i\<close>: \<^verbatim>\<open>undefined\<close> outside \<^verbatim>\<open>0 .. length - 1\<close>.\<close>

definition js_index :: "'a list \<Rightarrow> int \<Rightarrow> 'a option" where
  "js_index xs i = (if 0 \<le> i \<and> i < int (length xs) then Some (xs ! nat i) else None)"

text \<open>Truthiness of a number: every number but zero.\<close>

definition truthy :: "int \<Rightarrow> bool" where
  "truthy n = (n \<noteq> 0)"

section \<open>Data\<close>

text \<open>
  An entry of \<^verbatim>\<open>data.playerstats.achievements\<close>:
  \<^verbatim>\<open>{ "apiname": ..., "achieved": 0 | 1, "unlocktime": ... }\<close>.
\<close>

record player_achievement =
  pa_apiname :: string
  achieved :: int
  unlocktime :: int

text \<open>
  An entry of a bosses file. Its \<^verbatim>\<open>apiname\<close> is one string or, for a boss with
  several possible achievements, an array of strings.
\<close>

datatype apiname = Single string | Multi "string list"

record boss =
  apiname :: apiname
  name :: string

text \<open>\<^verbatim>\<open>achievement.apiname === boss.apiname\<close>: a string is never strictly equal to an array.\<close>

fun strict_equals :: "string \<Rightarrow> apiname \<Rightarrow> bool" where
  "strict_equals s (Single t) = (s = t)"
| "strict_equals s (Multi ts) = False"

text \<open>
  \<^verbatim>\<open>boss.apiname.includes(achievement.apiname)\<close>: membership when \<^verbatim>\<open>boss.apiname\<close> is an
  array, the substring test when it is a string.
\<close>

fun apiname_includes :: "apiname \<Rightarrow> string \<Rightarrow> bool" where
  "apiname_includes (Single t) s = sublist s t"
| "apiname_includes (Multi ts) s = (s \<in> set ts)"

definition apiname_json :: "apiname \<Rightarrow> json" where
  "apiname_json a = (case a of Single s \<Rightarrow> JString s | Multi ts \<Rightarrow> JArray (map JString ts))"

text \<open>
  A boss object as \<^verbatim>\<open>res.json\<close> serialises it: the two properties the handler reads,
  \<^verbatim>\<open>apiname\<close> before \<^verbatim>\<open>name\<close>.
\<close>

definition boss_json :: "boss \<Rightarrow> json" where
  "boss_json b = JObject [(''apiname'', apiname_json (apiname b)), (''name'', JString (name b))]"

section \<open>\<^verbatim>\<open>GET /bosses/:steamid/:appid\<close>\<close>

text \<open>
  The \<^verbatim>\<open>switch (req.params.appid)\<close> that picks the bosses file. The files themselves are
  not part of the sources, so the model returns the path handed to \<^verbatim>\<open>require\<close>.
\<close>

definition bosses_file :: "string \<Rightarrow> string" where
  "bosses_file appid =
     (if appid = ''570940'' then ''../schemas/bosses/darksoulsremastered.json''
      else if appid = ''1245620'' then ''../schemas/bosses/eldenring.json''
      else ''../schemas/bosses/darksoulsremastered.json'')"

text \<open>\<^verbatim>\<open>achievements.find((achievement) => achievement.apiname === boss.apiname)\<close>\<close>

definition currentBoss :: "player_achievement list \<Rightarrow> boss \<Rightarrow> player_achievement option" where
  "currentBoss achievements b =
     List.find (\<lambda>achievement. strict_equals (pa_apiname achievement) (apiname b)) achievements"

text \<open>\<^verbatim>\<open>achievements.filter((achievement) => boss.apiname.includes(achievement.apiname))\<close>\<close>

definition possibleAchievements :: "player_achievement list \<Rightarrow> boss \<Rightarrow> player_achievement list" where
  "possibleAchievements achievements b =
     filter (\<lambda>achievement. apiname_includes (apiname b) (pa_apiname achievement)) achievements"

text \<open>The three bodies the handler sends.\<close>

definition complete_data :: "boss \<Rightarrow> json" where
  "complete_data b =
     JObject [(''data'', JObject [(''complete'', JBool True), (''recent_boss'', JString (name b))])]"

definition next_boss_data :: "boss \<Rightarrow> boss \<Rightarrow> json" where
  "next_boss_data b prev =
     JObject [(''data'', JObject [(''complete'', JBool False),
                                   (''next_boss'', JString (name b)),
                                   (''recent_boss'', JString (name prev))])]"

text \<open>
  The body sent after the loop. \<^verbatim>\<open>bosses[bosses.length - 1]\<close> is the boss object itself
  and is \<^verbatim>\<open>undefined\<close> for an empty list, in which case serialisation drops the key.
\<close>

definition all_defeated_response :: "boss list \<Rightarrow> json" where
  "all_defeated_response bosses =
     JObject [(''response'', JObject ((''complete'', JBool True) #
        (case js_index bosses (int (length bosses) - 1) of
           None \<Rightarrow> []
         | Some b \<Rightarrow> [(''recent_boss'', boss_json b)])))]"

text \<open>
  The loop \<^verbatim>\<open>for (const [index, boss] of bosses.entries())\<close>. The last argument is the
  part of \<^verbatim>\<open>bosses\<close> still to be visited, \<^verbatim>\<open>index\<close> the position of its head.

  When \<^verbatim>\<open>currentBoss\<close> is \<^verbatim>\<open>undefined\<close> and no possible achievement is achieved, control
  falls through to \<^verbatim>\<open>currentBoss.achieved\<close>, which throws. When the boss at index 0 is not
  achieved, \<^verbatim>\<open>bosses[index - 1]\<close> is \<^verbatim>\<open>undefined\<close> and reading its \<^verbatim>\<open>name\<close> throws.
\<close>

fun bosses_loop ::
  "boss list \<Rightarrow> player_achievement list \<Rightarrow> nat \<Rightarrow> boss list \<Rightarrow> js_error + json" where
  "bosses_loop bosses achievements index [] = Inr (all_defeated_response bosses)"
| "bosses_loop bosses achievements index (b # rest) =
     (case currentBoss achievements b of
        None \<Rightarrow>
          (if list_ex (\<lambda>achievement. truthy (achieved achievement))
                (possibleAchievements achievements b)
           then Inr (complete_data b)
           else Inl (TypeError_undefined ''achieved''))
      | Some cb \<Rightarrow>
          (if \<not> truthy (achieved cb)
           then (case js_index bosses (int index - 1) of
                   None \<Rightarrow> Inl (TypeError_undefined ''name'')
                 | Some prev \<Rightarrow> Inr (next_boss_data b prev))
           else bosses_loop bosses achievements (Suc index) rest))"

definition evaluate :: "boss list \<Rightarrow> player_achievement list \<Rightarrow> js_error + json" where
  "evaluate bosses achievements = bosses_loop bosses achievements 0 bosses"

section \<open>\<^verbatim>\<open>GET /achievements/:steamid/:appid\<close>\<close>

text \<open>The \<^verbatim>\<open>switch (req.params.appid)\<close> that picks the schema file, as a path again.\<close>

definition schema_file :: "string \<Rightarrow> string" where
  "schema_file appid =
     (if appid = ''570940'' then ''../schemas/darksoulsremastered_schema.json''
      else if appid = ''1245620'' then ''../schemas/eldenring_schema.json''
      else ''../schemas/darksoulsremasteredschema.json'')"

text \<open>
  An entry of \<^verbatim>\<open>schema.game.availableGameStats.achievements\<close>; its \<^verbatim>\<open>name\<close> is the
  achievement's identifier.
\<close>

record schema_achievement =
  sa_name :: string
  displayName :: string
  description :: string
  icon :: string

text \<open>
  An entry of \<^verbatim>\<open>percentagesData.achievementpercentages.achievements\<close>. The handler only
  copies \<^verbatim>\<open>percent\<close>, so its type is left open.
\<close>

record 'p percentage =
  pc_name :: string
  percent :: 'p

record 'p result_achievement =
  ra_name :: string
  ra_description :: string
  ra_unlocktime :: string
  ra_icon :: string
  rarity :: 'p

text \<open>
  The object literal \<^verbatim>\<open>resultAchievement\<close>. \<^verbatim>\<open>new Date(ms).toDateString()\<close> depends on
  the time zone of the process, so it is a parameter.
\<close>

definition resultAchievement ::
  "(int \<Rightarrow> string) \<Rightarrow> schema_achievement \<Rightarrow> player_achievement \<Rightarrow> 'p \<Rightarrow> 'p result_achievement" where
  "resultAchievement toDateString achievement pa p =
     \<lparr> ra_name = displayName achievement,
       ra_description = description achievement,
       ra_unlocktime = toDateString (unlocktime pa * 1000),
       ra_icon = icon achievement,
       rarity = p \<rparr>"

text \<open>
  The \<^verbatim>\<open>forEach\<close> over the schema's achievements, pushing onto \<^verbatim>\<open>result\<close>.
  \<^verbatim>\<open>playerAchievements[index]\<close> is \<^verbatim>\<open>undefined\<close> past the end of the player's list and
  \<^verbatim>\<open>percentages.find(...)\<close> is \<^verbatim>\<open>undefined\<close> when no entry has the name; reading
  \<^verbatim>\<open>achieved\<close> or \<^verbatim>\<open>percent\<close> of it throws.
\<close>

fun enrich_loop ::
  "(int \<Rightarrow> string) \<Rightarrow> player_achievement list \<Rightarrow> 'p percentage list \<Rightarrow> nat \<Rightarrow>
   schema_achievement list \<Rightarrow> 'p result_achievement list \<Rightarrow> js_error + 'p result_achievement list" where
  "enrich_loop toDateString playerAchievements percentages index [] result = Inr result"
| "enrich_loop toDateString playerAchievements percentages index (achievement # rest) result =
     (case js_index playerAchievements (int index) of
        None \<Rightarrow> Inl (TypeError_undefined ''achieved'')
      | Some pa \<Rightarrow>
          (if truthy (achieved pa)
           then (case List.find (\<lambda>p. pc_name p = sa_name achievement) percentages of
                   None \<Rightarrow> Inl (TypeError_undefined ''percent'')
                 | Some p \<Rightarrow>
                     enrich_loop toDateString playerAchievements percentages (Suc index) rest
                       (result @ [resultAchievement toDateString achievement pa (percent p)]))
           else enrich_loop toDateString playerAchievements percentages (Suc index) rest result))"

definition enrich ::
  "(int \<Rightarrow> string) \<Rightarrow> schema_achievement list \<Rightarrow> player_achievement list \<Rightarrow>
   'p percentage list \<Rightarrow> js_error + 'p result_achievement list" where
  "enrich toDateString schema playerAchievements percentages =
     enrich_loop toDateString playerAchievements percentages 0 schema []"

section \<open>\<^verbatim>\<open>GET /owned-games/:steamid\<close>\<close>

text \<open>An entry of \<^verbatim>\<open>data.response.games\<close>, with the two fields the handler reads.\<close>

record game =
  g_appid :: int
  g_name :: string

text \<open>\<^verbatim>\<open>data.response\<close>; a field the upstream reply leaves out is \<^verbatim>\<open>undefined\<close>.\<close>

record owned_response =
  game_count :: "int option"
  games :: "game list option"

record owned_game =
  og_id :: string
  og_name :: string
  og_appid :: int

text \<open>The trade mark sign U+2122 of the three titles.\<close>

definition trade_mark :: string where
  "trade_mark = [CHR 0xE2, CHR 0x84, CHR 0xA2]"

definition dark_souls_remastered :: string where
  "dark_souls_remastered = ''DARK SOULS'' @ trade_mark @ '': REMASTERED''"

definition dark_souls_ii :: string where
  "dark_souls_ii = ''DARK SOULS'' @ trade_mark @ '' II''"

definition dark_souls_iii :: string where
  "dark_souls_iii = ''DARK SOULS'' @ trade_mark @ '' III''"

text \<open>The \<^verbatim>\<open>switch (game.name)\<close>.\<close>

definition game_id :: "string \<Rightarrow> string" where
  "game_id n =
     (if n = dark_souls_remastered then ''dark-souls-remastered''
      else if n = dark_souls_ii then ''dark-souls-2''
      else if n = dark_souls_iii then ''dark-souls-3''
      else ''elden-ring'')"

definition newGame :: "game \<Rightarrow> owned_game" where
  "newGame g = \<lparr> og_id = game_id (g_name g), og_name = g_name g, og_appid = g_appid g \<rparr>"

text \<open>\<^verbatim>\<open>data.response.games.forEach((game) => { ...; result.push(newGame); })\<close>\<close>

fun games_forEach :: "game list \<Rightarrow> owned_game list \<Rightarrow> owned_game list" where
  "games_forEach [] result = result"
| "games_forEach (g # gs) result = games_forEach gs (result @ [newGame g])"

text \<open>
  The handler after the upstream reply has been parsed: \<^verbatim>\<open>[]\<close> when
  \<^verbatim>\<open>game_count == 0\<close>, else one entry per game.
\<close>

definition owned_games :: "owned_response \<Rightarrow> js_error + owned_game list" where
  "owned_games r =
     (if game_count r = Some 0 then Inr []
      else (case games r of
              None \<Rightarrow> Inl (TypeError_undefined ''forEach'')
            | Some gs \<Rightarrow> Inr (games_forEach gs [])))"

section \<open>Example data\<close>

text \<open>
  An instance of the date formatter for the examples: it knows the day of one instant,
  1700000000 seconds after the epoch, in UTC.
\<close>

definition example_toDateString :: "int \<Rightarrow> string" where
  "example_toDateString ms =
     (if ms = 1700000000000 then ''Tue Nov 14 2023'' else ''Thu Jan 01 1970'')"

section \<open>The scan over the bosses\<close>

text \<open>A boss is passed when its exact-match entry exists and is achieved.\<close>

lemma bosses_loop_passed:
  assumes "\<forall>b \<in> set pre. \<exists>cb. currentBoss achievements b = Some cb \<and> truthy (achieved cb)"
  shows "bosses_loop bosses achievements index (pre @ rest) =
         bosses_loop bosses achievements (index + length pre) rest"
  using assms
proof (induction pre arbitrary: index)
  case Nil
  show ?case by simp
next
  case (Cons b pre)
  from Cons.prems obtain cb
    where cb: "currentBoss achievements b = Some cb" "truthy (achieved cb)"
    by auto
  from Cons.prems have "\<forall>b \<in> set pre. \<exists>cb. currentBoss achievements b = Some cb \<and> truthy (achieved cb)"
    by simp
  from Cons.IH [OF this, of "Suc index"] cb show ?case
    by simp
qed

lemma evaluate_reaches:
  assumes "K < length bosses"
    and "\<forall>i<K. \<exists>cb. currentBoss achievements (bosses ! i) = Some cb \<and> truthy (achieved cb)"
  shows "evaluate bosses achievements =
         bosses_loop bosses achievements K (bosses ! K # drop (Suc K) bosses)"
proof -
  have pre: "\<forall>b \<in> set (take K bosses).
               \<exists>cb. currentBoss achievements b = Some cb \<and> truthy (achieved cb)"
  proof
    fix b assume "b \<in> set (take K bosses)"
    then obtain i where "i < length (take K bosses)" "take K bosses ! i = b"
      by (auto simp: in_set_conv_nth)
    with assms show "\<exists>cb. currentBoss achievements b = Some cb \<and> truthy (achieved cb)"
      by auto
  qed
  have "bosses = take K bosses @ (bosses ! K # drop (Suc K) bosses)"
    using assms(1) by (simp add: Cons_nth_drop_Suc)
  then have "evaluate bosses achievements =
             bosses_loop bosses achievements 0 (take K bosses @ (bosses ! K # drop (Suc K) bosses))"
    by (simp add: evaluate_def)
  also have "\<dots> = bosses_loop bosses achievements (0 + length (take K bosses))
                    (bosses ! K # drop (Suc K) bosses)"
    by (rule bosses_loop_passed [OF pre])
  finally show ?thesis
    using assms(1) by simp
qed

lemma evaluate_all_passed:
  assumes "\<forall>b \<in> set bosses. \<exists>cb. currentBoss achievements b = Some cb \<and> truthy (achieved cb)"
  shows "evaluate bosses achievements = Inr (all_defeated_response bosses)"
  using bosses_loop_passed [OF assms, of bosses 0 "[]"] by (simp add: evaluate_def)

text \<open>
  C1. For a sequence of N bosses and a player achievement list in which the first K
  bosses (0 < K < N) each have an exact-match entry that is achieved and boss K has an
  exact-match entry that is not achieved, the handler sends
  \<^verbatim>\<open>{ data: { complete: false, next_boss: bosses[K].name, recent_boss: bosses[K-1].name } }\<close>.
\<close>

theorem evaluate_next_and_recent_boss:
  assumes "0 < K" and "K < length bosses"
    and "\<forall>i<K. \<exists>cb. currentBoss achievements (bosses ! i) = Some cb \<and> truthy (achieved cb)"
    and "\<exists>cb. currentBoss achievements (bosses ! K) = Some cb \<and> \<not> truthy (achieved cb)"
  shows "evaluate bosses achievements =
         Inr (JObject [(''data'', JObject [(''complete'', JBool False),
                (''next_boss'', JString (name (bosses ! K))),
                (''recent_boss'', JString (name (bosses ! (K - 1))))])])"
proof -
  from assms(4) obtain cb
    where cb: "currentBoss achievements (bosses ! K) = Some cb" "\<not> truthy (achieved cb)"
    by auto
  have prev: "js_index bosses (int K - 1) = Some (bosses ! (K - 1))"
    using assms(1,2) by (simp add: js_index_def nat_diff_distrib')
  show ?thesis
    using evaluate_reaches [OF assms(2,3)] cb prev by (simp add: next_boss_data_def)
qed

theorem evaluate_next_and_recent_boss_witness:
  "evaluate
     [\<lparr>apiname = Single ''A0'', name = ''Asylum Demon''\<rparr>,
      \<lparr>apiname = Single ''A1'', name = ''Bell Gargoyles''\<rparr>,
      \<lparr>apiname = Single ''A2'', name = ''Chaos Witch Quelaag''\<rparr>]
     [\<lparr>pa_apiname = ''A2'', achieved = 0, unlocktime = 0\<rparr>,
      \<lparr>pa_apiname = ''A0'', achieved = 1, unlocktime = 1726438602\<rparr>,
      \<lparr>pa_apiname = ''A1'', achieved = 1, unlocktime = 1726438700\<rparr>]
   = Inr (JObject [(''data'', JObject [(''complete'', JBool False),
            (''next_boss'', JString ''Chaos Witch Quelaag''),
            (''recent_boss'', JString ''Bell Gargoyles'')])])"
  using evaluate_next_and_recent_boss
    [of 2 "[\<lparr>apiname = Single ''A0'', name = ''Asylum Demon''\<rparr>,
      \<lparr>apiname = Single ''A1'', name = ''Bell Gargoyles''\<rparr>,
      \<lparr>apiname = Single ''A2'', name = ''Chaos Witch Quelaag''\<rparr>]"
     "[\<lparr>pa_apiname = ''A2'', achieved = 0, unlocktime = 0\<rparr>,
      \<lparr>pa_apiname = ''A0'', achieved = 1, unlocktime = 1726438602\<rparr>,
      \<lparr>pa_apiname = ''A1'', achieved = 1, unlocktime = 1726438700\<rparr>]"]
  by (simp add: currentBoss_def truthy_def less_Suc_eq numeral_2_eq_2)

text \<open>
  C2. The claim asks for a verdict with \<^verbatim>\<open>next_boss\<close> set and \<^verbatim>\<open>recent_boss\<close> absent when
  the boss at index 0 has an exact-match entry that is not achieved. The handler reads
  \<^verbatim>\<open>bosses[index - 1].name\<close> with \<^verbatim>\<open>index = 0\<close>: \<^verbatim>\<open>bosses[-1]\<close> is \<^verbatim>\<open>undefined\<close> and the
  read throws, so no verdict is sent.
\<close>

theorem evaluate_first_boss_not_achieved_throws:
  "evaluate
     [\<lparr>apiname = Single ''A0'', name = ''Asylum Demon''\<rparr>,
      \<lparr>apiname = Single ''A1'', name = ''Bell Gargoyles''\<rparr>]
     [\<lparr>pa_apiname = ''A0'', achieved = 0, unlocktime = 0\<rparr>,
      \<lparr>pa_apiname = ''A1'', achieved = 0, unlocktime = 0\<rparr>]
   = Inl (TypeError_undefined ''name'')"
  by (simp add: evaluate_def currentBoss_def truthy_def js_index_def)

text \<open>
  C3. The claim asks for \<^verbatim>\<open>{ data: { complete: true, recent_boss: <name of the last boss> } }\<close>
  when every boss is matched and achieved. The return after the loop sends the verdict
  under \<^verbatim>\<open>response\<close>, not \<^verbatim>\<open>data\<close>, and its \<^verbatim>\<open>recent_boss\<close> is the last boss object, not
  that object's \<^verbatim>\<open>name\<close>.
\<close>

theorem evaluate_all_achieved_sends_response_object:
  "evaluate
     [\<lparr>apiname = Single ''A0'', name = ''Asylum Demon''\<rparr>,
      \<lparr>apiname = Single ''A1'', name = ''Bell Gargoyles''\<rparr>]
     [\<lparr>pa_apiname = ''A0'', achieved = 1, unlocktime = 1726438602\<rparr>,
      \<lparr>pa_apiname = ''A1'', achieved = 1, unlocktime = 1726438700\<rparr>]
   = Inr (JObject [(''response'', JObject [(''complete'', JBool True),
            (''recent_boss'', JObject [(''apiname'', JString ''A1''),
                                       (''name'', JString ''Bell Gargoyles'')])])])"
  by (simp add: evaluate_def currentBoss_def truthy_def js_index_def all_defeated_response_def
      boss_json_def apiname_json_def)

text \<open>
  C4. The claim asks that a boss whose \<^verbatim>\<open>apiname\<close> is a set of candidates, none of them
  achieved, be reported as the next boss without throwing. The handler leaves the inner
  loop with \<^verbatim>\<open>currentBoss\<close> still \<^verbatim>\<open>undefined\<close> and reads \<^verbatim>\<open>currentBoss.achieved\<close>, which
  throws.
\<close>

theorem evaluate_branching_none_achieved_throws:
  "evaluate
     [\<lparr>apiname = Single ''A0'', name = ''Margit''\<rparr>,
      \<lparr>apiname = Multi [''E1'', ''E2'', ''E3''], name = ''Elden Beast''\<rparr>]
     [\<lparr>pa_apiname = ''A0'', achieved = 1, unlocktime = 1726438602\<rparr>,
      \<lparr>pa_apiname = ''E1'', achieved = 0, unlocktime = 0\<rparr>,
      \<lparr>pa_apiname = ''E2'', achieved = 0, unlocktime = 0\<rparr>,
      \<lparr>pa_apiname = ''E3'', achieved = 0, unlocktime = 0\<rparr>]
   = Inl (TypeError_undefined ''achieved'')"
  by (simp add: evaluate_def currentBoss_def truthy_def possibleAchievements_def)

text \<open>
  C5. When the scan reaches a boss whose \<^verbatim>\<open>apiname\<close> is a set of candidates and the player
  has achieved at least one candidate, the handler stops and sends
  \<^verbatim>\<open>{ data: { complete: true, recent_boss: <that boss's name> } }\<close>, with no \<^verbatim>\<open>next_boss\<close>,
  whichever candidate it is.
\<close>

theorem evaluate_branching_achieved:
  assumes "K < length bosses"
    and "\<forall>i<K. \<exists>cb. currentBoss achievements (bosses ! i) = Some cb \<and> truthy (achieved cb)"
    and "apiname (bosses ! K) = Multi candidates"
    and "\<exists>a \<in> set achievements. pa_apiname a \<in> set candidates \<and> truthy (achieved a)"
  shows "evaluate bosses achievements =
         Inr (JObject [(''data'', JObject [(''complete'', JBool True),
                (''recent_boss'', JString (name (bosses ! K)))])])"
proof -
  have none: "currentBoss achievements (bosses ! K) = None"
    using assms(3) by (simp add: currentBoss_def find_None_iff)
  have some: "list_ex (\<lambda>achievement. truthy (achieved achievement))
                (possibleAchievements achievements (bosses ! K))"
    using assms(3,4) by (auto simp: list_ex_iff possibleAchievements_def)
  show ?thesis
    using evaluate_reaches [OF assms(1,2)] none some by (simp add: complete_data_def)
qed

theorem evaluate_branching_achieved_witness:
  "evaluate
     [\<lparr>apiname = Single ''A0'', name = ''Margit''\<rparr>,
      \<lparr>apiname = Multi [''E1'', ''E2'', ''E3''], name = ''Elden Beast''\<rparr>]
     [\<lparr>pa_apiname = ''A0'', achieved = 1, unlocktime = 1726438602\<rparr>,
      \<lparr>pa_apiname = ''E1'', achieved = 0, unlocktime = 0\<rparr>,
      \<lparr>pa_apiname = ''E2'', achieved = 1, unlocktime = 1726439000\<rparr>,
      \<lparr>pa_apiname = ''E3'', achieved = 0, unlocktime = 0\<rparr>]
   = Inr (JObject [(''data'', JObject [(''complete'', JBool True),
            (''recent_boss'', JString ''Elden Beast'')])])"
  using evaluate_branching_achieved
    [of 1 "[\<lparr>apiname = Single ''A0'', name = ''Margit''\<rparr>,
      \<lparr>apiname = Multi [''E1'', ''E2'', ''E3''], name = ''Elden Beast''\<rparr>]"
     "[\<lparr>pa_apiname = ''A0'', achieved = 1, unlocktime = 1726438602\<rparr>,
      \<lparr>pa_apiname = ''E1'', achieved = 0, unlocktime = 0\<rparr>,
      \<lparr>pa_apiname = ''E2'', achieved = 1, unlocktime = 1726439000\<rparr>,
      \<lparr>pa_apiname = ''E3'', achieved = 0, unlocktime = 0\<rparr>]"
     "[''E1'', ''E2'', ''E3'']"]
  by (simp add: currentBoss_def truthy_def)

text \<open>
  C6. The claim asks that an identifier outside the catalogue be answered with an explicit
  not-found outcome. Both switches have a \<^verbatim>\<open>default\<close> branch that loads a Dark Souls
  Remastered file instead (under the comment "Replace default case with an error
  response"); for the bosses it is the very file of appid 570940.
\<close>

theorem unknown_appid_gets_default_files:
  "bosses_file ''374320'' = ''../schemas/bosses/darksoulsremastered.json'' \<and>
   bosses_file ''374320'' = bosses_file ''570940'' \<and>
   schema_file ''374320'' = ''../schemas/darksoulsremasteredschema.json''"
  by (simp add: bosses_file_def schema_file_def)

section \<open>The loop over the schema\<close>

lemma enrich_loop_aligned:
  assumes "index + length rest \<le> length pas"
    and "\<forall>s \<in> set rest. \<exists>p \<in> set pcts. pc_name p = sa_name s"
  shows "enrich_loop f pas pcts index rest result =
         Inr (result @
              map (\<lambda>(s, pa). resultAchievement f s pa
                     (percent (the (List.find (\<lambda>p. pc_name p = sa_name s) pcts))))
                (filter (\<lambda>(s, pa). truthy (achieved pa)) (zip rest (drop index pas))))"
  using assms
proof (induction rest arbitrary: index result)
  case Nil
  show ?case by simp
next
  case (Cons s rest)
  from Cons.prems(1) have lt: "index < length pas" by simp
  then have idx: "js_index pas (int index) = Some (pas ! index)"
    by (simp add: js_index_def)
  from lt have dr: "drop index pas = pas ! index # drop (Suc index) pas"
    by (simp add: Cons_nth_drop_Suc)
  from Cons.prems(2) obtain p where p: "List.find (\<lambda>p. pc_name p = sa_name s) pcts = Some p"
    by (cases "List.find (\<lambda>p. pc_name p = sa_name s) pcts") (auto simp: find_None_iff)
  have IH: "\<And>r. enrich_loop f pas pcts (Suc index) rest r =
         Inr (r @
              map (\<lambda>(s, pa). resultAchievement f s pa
                     (percent (the (List.find (\<lambda>p. pc_name p = sa_name s) pcts))))
                (filter (\<lambda>(s, pa). truthy (achieved pa)) (zip rest (drop (Suc index) pas))))"
    using Cons.prems by (intro Cons.IH) auto
  show ?case
    by (simp add: idx dr p IH)
qed

text \<open>
  C7. When the player's list has the length of the schema and every schema entry has a
  percentage entry of its name, the result holds one object per position whose player
  entry is achieved, in schema order, and nothing for the other positions; when no entry
  is achieved it is the empty list.
\<close>

theorem enrich_achieved_in_schema_order:
  assumes "length playerAchievements = length schema"
    and "\<forall>s \<in> set schema. \<exists>p \<in> set percentages. pc_name p = sa_name s"
  shows "enrich toDateString schema playerAchievements percentages =
           Inr (map (\<lambda>(s, pa). resultAchievement toDateString s pa
                      (percent (the (List.find (\<lambda>p. pc_name p = sa_name s) percentages))))
                 (filter (\<lambda>(s, pa). truthy (achieved pa)) (zip schema playerAchievements)))
         \<and> ((\<forall>pa \<in> set playerAchievements. \<not> truthy (achieved pa)) \<longrightarrow>
              enrich toDateString schema playerAchievements percentages = Inr [])"
proof -
  have eq: "enrich toDateString schema playerAchievements percentages =
           Inr (map (\<lambda>(s, pa). resultAchievement toDateString s pa
                      (percent (the (List.find (\<lambda>p. pc_name p = sa_name s) percentages))))
                 (filter (\<lambda>(s, pa). truthy (achieved pa)) (zip schema playerAchievements)))"
    using enrich_loop_aligned [of 0 schema playerAchievements percentages toDateString "[]"] assms
    by (simp add: enrich_def)
  have "filter (\<lambda>(s, pa). truthy (achieved pa)) (zip schema playerAchievements) = []"
    if "\<forall>pa \<in> set playerAchievements. \<not> truthy (achieved pa)"
    using that by (auto simp: filter_empty_conv dest: set_zip_rightD)
  with eq show ?thesis by simp
qed

theorem enrich_achieved_in_schema_order_witness:
  "enrich example_toDateString
     [\<lparr>sa_name = ''A0'', displayName = ''Enkindle'', description = ''Light bonfire flame.'', icon = ''a0.jpg''\<rparr>,
      \<lparr>sa_name = ''A1'', displayName = ''Estus Flask'', description = ''Acquire Estus Flask.'', icon = ''a1.jpg''\<rparr>]
     [\<lparr>pa_apiname = ''A0'', achieved = 0, unlocktime = 0\<rparr>,
      \<lparr>pa_apiname = ''A1'', achieved = 1, unlocktime = 1700000000\<rparr>]
     [\<lparr>pc_name = ''A0'', percent = 10\<rparr>,
      \<lparr>pc_name = ''A1'', percent = 42\<rparr>]
   = Inr [\<lparr>ra_name = ''Estus Flask'', ra_description = ''Acquire Estus Flask.'', ra_unlocktime = ''Tue Nov 14 2023'', ra_icon = ''a1.jpg'', rarity = 42\<rparr> :: int result_achievement]"
  using enrich_achieved_in_schema_order
    [of "[\<lparr>pa_apiname = ''A0'', achieved = 0, unlocktime = 0\<rparr>,
      \<lparr>pa_apiname = ''A1'', achieved = 1, unlocktime = 1700000000\<rparr>]"
        "[\<lparr>sa_name = ''A0'', displayName = ''Enkindle'', description = ''Light bonfire flame.'', icon = ''a0.jpg''\<rparr>,
      \<lparr>sa_name = ''A1'', displayName = ''Estus Flask'', description = ''Acquire Estus Flask.'', icon = ''a1.jpg''\<rparr>]"
        "[\<lparr>pc_name = ''A0'', percent = 10\<rparr>,
      \<lparr>pc_name = ''A1'', percent = 42\<rparr>] :: int percentage list"
        example_toDateString]
  by (simp add: truthy_def resultAchievement_def example_toDateString_def)

lemma enrich_loop_missing_percent:
  assumes "j < length rest" and "index + j < length pas"
    and "truthy (achieved (pas ! (index + j)))"
    and "\<forall>p \<in> set pcts. pc_name p \<noteq> sa_name (rest ! j)"
  shows "enrich_loop f pas pcts index rest result = Inl (TypeError_undefined ''percent'')"
  using assms
proof (induction rest arbitrary: index j result)
  case Nil
  then show ?case by simp
next
  case (Cons s rest)
  from Cons.prems(2) have idx: "js_index pas (int index) = Some (pas ! index)"
    by (simp add: js_index_def)
  show ?case
  proof (cases j)
    case 0
    with Cons.prems have "List.find (\<lambda>p. pc_name p = sa_name s) pcts = None"
      by (simp add: find_None_iff)
    with 0 Cons.prems(3) idx show ?thesis by simp
  next
    case (Suc j')
    with Cons.prems have IH: "\<And>r. enrich_loop f pas pcts (Suc index) rest r =
        Inl (TypeError_undefined ''percent'')"
      by (intro Cons.IH [of j']) auto
    show ?thesis
      by (simp add: idx IH split: option.splits)
  qed
qed

text \<open>
  C8. When some position is achieved and no percentage entry has the name of its schema
  entry, the whole call fails: \<^verbatim>\<open>percentages.find(...)\<close> is \<^verbatim>\<open>undefined\<close> and reading its
  \<^verbatim>\<open>percent\<close> throws, so no list, partial or zero-filled, is returned.
\<close>

theorem enrich_missing_rarity_fails:
  assumes "i < length schema" and "i < length playerAchievements"
    and "truthy (achieved (playerAchievements ! i))"
    and "\<forall>p \<in> set percentages. pc_name p \<noteq> sa_name (schema ! i)"
  shows "enrich toDateString schema playerAchievements percentages =
         Inl (TypeError_undefined ''percent'')"
  using enrich_loop_missing_percent [of i schema 0 playerAchievements percentages] assms
  by (simp add: enrich_def)

theorem enrich_missing_rarity_fails_witness:
  "enrich example_toDateString
     [\<lparr>sa_name = ''A0'', displayName = ''Enkindle'', description = ''Light bonfire flame.'', icon = ''a0.jpg''\<rparr>,
      \<lparr>sa_name = ''A1'', displayName = ''Estus Flask'', description = ''Acquire Estus Flask.'', icon = ''a1.jpg''\<rparr>]
     [\<lparr>pa_apiname = ''A0'', achieved = 1, unlocktime = 1700000000\<rparr>,
      \<lparr>pa_apiname = ''A1'', achieved = 1, unlocktime = 1700000000\<rparr>]
     [\<lparr>pc_name = ''A0'', percent = 10\<rparr> :: int percentage]
   = Inl (TypeError_undefined ''percent'')"
  using enrich_missing_rarity_fails
    [of 1 "[\<lparr>sa_name = ''A0'', displayName = ''Enkindle'', description = ''Light bonfire flame.'', icon = ''a0.jpg''\<rparr>,
      \<lparr>sa_name = ''A1'', displayName = ''Estus Flask'', description = ''Acquire Estus Flask.'', icon = ''a1.jpg''\<rparr>]"
        "[\<lparr>pa_apiname = ''A0'', achieved = 1, unlocktime = 1700000000\<rparr>,
      \<lparr>pa_apiname = ''A1'', achieved = 1, unlocktime = 1700000000\<rparr>]"
        "[\<lparr>pc_name = ''A0'', percent = 10\<rparr>] :: int percentage list"
        example_toDateString]
  by (simp add: truthy_def)

lemma enrich_loop_short:
  assumes "index \<le> length pas" and "length pas < index + length rest"
  shows "enrich_loop f pas pcts index rest result = Inl (TypeError_undefined ''achieved'') \<or>
         enrich_loop f pas pcts index rest result = Inl (TypeError_undefined ''percent'')"
  using assms
proof (induction rest arbitrary: index result)
  case Nil
  then show ?case by simp
next
  case (Cons s rest)
  show ?case
  proof (cases "index < length pas")
    case False
    then show ?thesis by (simp add: js_index_def)
  next
    case True
    with Cons.prems have "Suc index \<le> length pas" "length pas < Suc index + length rest"
      by simp_all
    from Cons.IH [OF this] show ?thesis
      by (simp split: option.splits)
  qed
qed

lemma enrich_loop_take:
  "enrich_loop f pas pcts index rest result =
   enrich_loop f (take (index + length rest) pas) pcts index rest result"
proof (induction rest arbitrary: index result)
  case Nil
  show ?case by simp
next
  case (Cons s rest)
  have idx: "js_index (take (Suc (index + length rest)) pas) (int index) = js_index pas (int index)"
    by (simp add: js_index_def)
  have IH: "\<And>r. enrich_loop f pas pcts (Suc index) rest r =
      enrich_loop f (take (Suc (index + length rest)) pas) pcts (Suc index) rest r"
    using Cons.IH [of "Suc index"] by simp
  show ?case
    by (simp add: idx IH cong: option.case_cong if_cong)
qed

text \<open>
  C9, as stated: a player list whose length differs from the schema's is reported as an
  error. The handler never compares the two lengths; with a longer player list it answers
  as if the surplus entries were not there.
\<close>

theorem enrich_longer_player_list_counterexample:
  "length [\<lparr>pa_apiname = ''A0'', achieved = 1, unlocktime = 1700000000\<rparr>,
      \<lparr>pa_apiname = ''A1'', achieved = 1, unlocktime = 1700000000\<rparr>]
     \<noteq> length [\<lparr>sa_name = ''A0'', displayName = ''Enkindle'', description = ''Light bonfire flame.'', icon = ''a0.jpg''\<rparr>]
   \<and> enrich example_toDateString
     [\<lparr>sa_name = ''A0'', displayName = ''Enkindle'', description = ''Light bonfire flame.'', icon = ''a0.jpg''\<rparr>]
     [\<lparr>pa_apiname = ''A0'', achieved = 1, unlocktime = 1700000000\<rparr>,
      \<lparr>pa_apiname = ''A1'', achieved = 1, unlocktime = 1700000000\<rparr>]
     [\<lparr>pc_name = ''A0'', percent = 10\<rparr>]
   = Inr [\<lparr>ra_name = ''Enkindle'', ra_description = ''Light bonfire flame.'', ra_unlocktime = ''Tue Nov 14 2023'', ra_icon = ''a0.jpg'', rarity = 10\<rparr> :: int result_achievement]"
  by (simp add: enrich_def js_index_def truthy_def resultAchievement_def example_toDateString_def)

text \<open>
  C9, amended. When the player's list is shorter than the schema, the call fails with the
  \<^verbatim>\<open>TypeError\<close> of reading \<^verbatim>\<open>achieved\<close> past the end of the list (or, earlier, \<^verbatim>\<open>percent\<close>
  of a missing percentage entry). When it is longer, the surplus entries are ignored: the
  result is that of the list cut to the schema's length.
\<close>

theorem enrich_length_mismatch:
  "(length playerAchievements < length schema \<longrightarrow>
      enrich toDateString schema playerAchievements percentages
        = Inl (TypeError_undefined ''achieved'') \<or>
      enrich toDateString schema playerAchievements percentages
        = Inl (TypeError_undefined ''percent''))
   \<and> (length schema < length playerAchievements \<longrightarrow>
      enrich toDateString schema playerAchievements percentages =
      enrich toDateString schema (take (length schema) playerAchievements) percentages)"
proof (intro conjI impI)
  assume "length playerAchievements < length schema"
  then show "enrich toDateString schema playerAchievements percentages
        = Inl (TypeError_undefined ''achieved'') \<or>
      enrich toDateString schema playerAchievements percentages
        = Inl (TypeError_undefined ''percent'')"
    unfolding enrich_def by (intro enrich_loop_short) simp_all
next
  show "enrich toDateString schema playerAchievements percentages =
      enrich toDateString schema (take (length schema) playerAchievements) percentages"
    unfolding enrich_def
    using enrich_loop_take [of toDateString playerAchievements percentages 0 schema "[]"]
    by (simp only: add_0)
qed

theorem enrich_length_mismatch_witness:
  "enrich example_toDateString
     [\<lparr>sa_name = ''A0'', displayName = ''Enkindle'', description = ''Light bonfire flame.'', icon = ''a0.jpg''\<rparr>,
      \<lparr>sa_name = ''A1'', displayName = ''Estus Flask'', description = ''Acquire Estus Flask.'', icon = ''a1.jpg''\<rparr>]
     [\<lparr>pa_apiname = ''A0'', achieved = 1, unlocktime = 1700000000\<rparr>]
     [\<lparr>pc_name = ''A0'', percent = 10\<rparr>,
      \<lparr>pc_name = ''A1'', percent = 42\<rparr> :: int percentage]
   = Inl (TypeError_undefined ''achieved'')
   \<and> enrich example_toDateString
     [\<lparr>sa_name = ''A0'', displayName = ''Enkindle'', description = ''Light bonfire flame.'', icon = ''a0.jpg''\<rparr>]
     [\<lparr>pa_apiname = ''A0'', achieved = 1, unlocktime = 1700000000\<rparr>,
      \<lparr>pa_apiname = ''A1'', achieved = 1, unlocktime = 1700000000\<rparr>]
     [\<lparr>pc_name = ''A0'', percent = 10\<rparr>,
      \<lparr>pc_name = ''A1'', percent = 42\<rparr>]
   = Inr [\<lparr>ra_name = ''Enkindle'', ra_description = ''Light bonfire flame.'', ra_unlocktime = ''Tue Nov 14 2023'', ra_icon = ''a0.jpg'', rarity = 10\<rparr> :: int result_achievement]"
proof -
  have short: "enrich example_toDateString
     [\<lparr>sa_name = ''A0'', displayName = ''Enkindle'', description = ''Light bonfire flame.'', icon = ''a0.jpg''\<rparr>,
      \<lparr>sa_name = ''A1'', displayName = ''Estus Flask'', description = ''Acquire Estus Flask.'', icon = ''a1.jpg''\<rparr>]
     [\<lparr>pa_apiname = ''A0'', achieved = 1, unlocktime = 1700000000\<rparr>]
     [\<lparr>pc_name = ''A0'', percent = 10\<rparr>,
      \<lparr>pc_name = ''A1'', percent = 42\<rparr> :: int percentage]
     \<noteq> Inl (TypeError_undefined ''percent'')"
    by (simp add: enrich_def js_index_def truthy_def)
  have cut: "enrich example_toDateString
     [\<lparr>sa_name = ''A0'', displayName = ''Enkindle'', description = ''Light bonfire flame.'', icon = ''a0.jpg''\<rparr>]
     [\<lparr>pa_apiname = ''A0'', achieved = 1, unlocktime = 1700000000\<rparr>]
     [\<lparr>pc_name = ''A0'', percent = 10\<rparr>,
      \<lparr>pc_name = ''A1'', percent = 42\<rparr>]
   = Inr [\<lparr>ra_name = ''Enkindle'', ra_description = ''Light bonfire flame.'', ra_unlocktime = ''Tue Nov 14 2023'', ra_icon = ''a0.jpg'', rarity = 10\<rparr> :: int result_achievement]"
    by (simp add: enrich_def js_index_def truthy_def resultAchievement_def
        example_toDateString_def)
  from short cut show ?thesis
    using enrich_length_mismatch
      [of "[\<lparr>pa_apiname = ''A0'', achieved = 1, unlocktime = 1700000000\<rparr>]"
          "[\<lparr>sa_name = ''A0'', displayName = ''Enkindle'', description = ''Light bonfire flame.'', icon = ''a0.jpg''\<rparr>,
      \<lparr>sa_name = ''A1'', displayName = ''Estus Flask'', description = ''Acquire Estus Flask.'', icon = ''a1.jpg''\<rparr>]"
          example_toDateString
          "[\<lparr>pc_name = ''A0'', percent = 10\<rparr>,
      \<lparr>pc_name = ''A1'', percent = 42\<rparr>] :: int percentage list"]
      enrich_length_mismatch
      [of "[\<lparr>pa_apiname = ''A0'', achieved = 1, unlocktime = 1700000000\<rparr>,
      \<lparr>pa_apiname = ''A1'', achieved = 1, unlocktime = 1700000000\<rparr>]"
          "[\<lparr>sa_name = ''A0'', displayName = ''Enkindle'', description = ''Light bonfire flame.'', icon = ''a0.jpg''\<rparr>]"
          example_toDateString
          "[\<lparr>pc_name = ''A0'', percent = 10\<rparr>,
      \<lparr>pc_name = ''A1'', percent = 42\<rparr>] :: int percentage list"]
    by simp
qed

section \<open>The owned-games listing\<close>

lemma games_forEach_map: "games_forEach gs result = result @ map newGame gs"
  by (induction gs arbitrary: result) simp_all

text \<open>
  C10. Every game of the listing whose name is none of the three Dark Souls titles of the
  \<^verbatim>\<open>switch\<close> has the id \<^verbatim>\<open>elden-ring\<close>, whatever its name and appid.
\<close>

theorem owned_games_default_id:
  assumes "owned_games r = Inr result" and "g \<in> set result"
    and "og_name g \<noteq> dark_souls_remastered" and "og_name g \<noteq> dark_souls_ii"
    and "og_name g \<noteq> dark_souls_iii"
  shows "og_id g = ''elden-ring''"
proof -
  from assms(1,2) obtain gs u where "games r = Some gs" "u \<in> set gs" "g = newGame u"
    by (auto simp: owned_games_def games_forEach_map split: if_splits option.splits)
  with assms(3-5) show ?thesis
    by (simp add: newGame_def game_id_def)
qed

theorem owned_games_default_id_witness:
  "owned_games \<lparr>game_count = Some 2, games = Some
      [\<lparr>g_appid = 570940, g_name = dark_souls_remastered\<rparr>,
       \<lparr>g_appid = 335300, g_name = dark_souls_ii @ '': Scholar of the First Sin''\<rparr>]\<rparr>
   = Inr [\<lparr>og_id = ''dark-souls-remastered'', og_name = dark_souls_remastered, og_appid = 570940\<rparr>,
          \<lparr>og_id = ''elden-ring'', og_name = dark_souls_ii @ '': Scholar of the First Sin'',
            og_appid = 335300\<rparr>]"
  using owned_games_default_id
    [of "\<lparr>game_count = Some 2, games = Some
      [\<lparr>g_appid = 570940, g_name = dark_souls_remastered\<rparr>,
       \<lparr>g_appid = 335300, g_name = dark_souls_ii @ '': Scholar of the First Sin''\<rparr>]\<rparr>"
     "[newGame \<lparr>g_appid = 570940, g_name = dark_souls_remastered\<rparr>,
       newGame \<lparr>g_appid = 335300, g_name = dark_souls_ii @ '': Scholar of the First Sin''\<rparr>]"
     "newGame \<lparr>g_appid = 335300, g_name = dark_souls_ii @ '': Scholar of the First Sin''\<rparr>"]
  by (simp add: owned_games_def newGame_def game_id_def dark_souls_remastered_def
      dark_souls_ii_def dark_souls_iii_def trade_mark_def)

end
